theory Spec2Isabelle
  imports Main "HOL-Library.AList"
begin

section \<open>Values, keyword arguments and exceptions\<close>

text \<open>
  A field of a pydantic object holds a Python value. The routers only ever look at the
  integer stored under the key \<open>id\<close>; every other value is carried around unchanged, so
  a value is either a Python integer or something else.
\<close>

datatype 'a val = VInt int | VOther 'a

text \<open>
  The result of \<open>model.dict()\<close>, and the keyword arguments of a call: a dictionary from
  field names to values, in insertion order.
\<close>

type_synonym 'a kwargs = "(string \<times> 'a val) list"

text \<open>
  The exceptions that leave a route function. \<open>HTTPException status_code detail\<close> is the
  one of the web framework; the others are Python's own or those of a persistence
  library, which carry the message strings of \<open>e.args\<close>.
\<close>

datatype exc =
    HTTPException int string
  | TypeError
  | ValidationError
  | IndexError
  | IntegrityError "string list"
  | UniqueViolationError "string list"
  | OtherError "string list"

definition NOT_FOUND :: exc where
  "NOT_FOUND = HTTPException 404 ''Item not found''"

section \<open>The in-memory router\<close>

text \<open>
  An instance of the schema class: its identifier (the attribute \<open>id\<close>) and its other
  fields.
\<close>

record 'a model =
  model_id :: int
  attrs :: "'a kwargs"

text \<open>
  The mutable attributes of a \<open>MemoryCRUDRouter\<close>: the list \<open>models\<close> and the counter
  \<open>_id\<close> (here \<open>next_id\<close>).
\<close>

record 'a store =
  models :: "'a model list"
  next_id :: int

definition init :: "'a store" where
  "init = \<lparr>models = [], next_id = 1\<rparr>"

text \<open>
  The schema class is given to the router by its user, and is a parameter here: the
  fields it declares besides \<open>id\<close>, in their order, each required (\<open>None\<close>) or with a
  default value, and the validation of a value for a field, which gives the value that is
  stored (the class may convert it) or nothing when it rejects the value.
\<close>

record 'a schema_class =
  declared :: "(string \<times> 'a val option) list"
  validate :: "string \<Rightarrow> 'a val \<Rightarrow> 'a val option"

text \<open>
  The validation of keyword arguments against declared fields: a field that is passed is
  validated, a field that is not passed takes its default, and a required field that is
  missing or a value that is rejected fails the whole call. A keyword argument that is
  not declared is dropped.
\<close>

fun validate_fields ::
  "'a schema_class \<Rightarrow> (string \<times> 'a val option) list \<Rightarrow> 'a kwargs \<Rightarrow> 'a kwargs option" where
  "validate_fields sc [] kw = Some []"
| "validate_fields sc ((name, dflt) # decl) kw =
     (case (case map_of kw name of Some v \<Rightarrow> validate sc name v | None \<Rightarrow> dflt) of
        None \<Rightarrow> None
      | Some v \<Rightarrow>
          (case validate_fields sc decl kw of
             None \<Rightarrow> None
           | Some fs \<Rightarrow> Some ((name, v) # fs)))"

definition fields_of :: "'a schema_class \<Rightarrow> 'a kwargs \<Rightarrow> 'a kwargs option" where
  "fields_of sc kw = validate_fields sc (AList.delete ''id'' (declared sc)) kw"

text \<open>
  \<open>self.schema(**kwargs)\<close>: the integer under \<open>id\<close> becomes the identifier and the
  validated fields become the other fields; the call raises the validation error when
  there is no integer \<open>id\<close> or a field fails.
\<close>

definition schema :: "'a schema_class \<Rightarrow> 'a kwargs \<Rightarrow> exc + 'a model" where
  "schema sc kw =
     (case map_of kw ''id'' of
        Some (VInt n) \<Rightarrow>
          (case fields_of sc kw of
             None \<Rightarrow> Inl ValidationError
           | Some fs \<Rightarrow> Inr \<lparr>model_id = n, attrs = fs\<rparr>)
      | _ \<Rightarrow> Inl ValidationError)"

text \<open>
  \<open>self.schema(**model.dict(), id=model_.id)\<close>: Python refuses a call that receives the
  keyword \<open>id\<close> twice, once from the unpacked dictionary and once written out.
\<close>

definition schema_with_id :: "'a schema_class \<Rightarrow> 'a kwargs \<Rightarrow> int \<Rightarrow> exc + 'a model" where
  "schema_with_id sc d i =
     (if ''id'' \<in> set (map fst d) then Inl TypeError
      else schema sc (d @ [(''id'', VInt i)]))"

definition get_next_id :: "'a store \<Rightarrow> int \<times> 'a store" where
  "get_next_id st = (next_id st, st\<lparr>next_id := next_id st + 1\<rparr>)"

subsection \<open>Listing\<close>

text \<open>
  What \<open>params.to_raw_params()\<close> of the pagination library returns: an offset and an
  optional limit.
\<close>

record raw_params =
  limit :: "int option"
  offset :: int

text \<open>
  Python's \<open>xs[a:b]\<close> on a list: a negative bound counts from the end, and both bounds
  are clamped to the list.
\<close>

definition slice_bound :: "nat \<Rightarrow> int \<Rightarrow> nat" where
  "slice_bound n i =
     (if i < 0 then (if i + int n < 0 then 0 else nat (i + int n))
      else if int n < i then n else nat i)"

definition slice :: "'b list \<Rightarrow> int \<Rightarrow> int option \<Rightarrow> 'b list" where
  "slice xs a b =
     (let n = length xs;
          lo = slice_bound n a;
          hi = (case b of None \<Rightarrow> n | Some j \<Rightarrow> slice_bound n j)
      in take (hi - lo) (drop lo xs))"

text \<open>
  The value of the list route: a page (\<open>create_page(items, total, params)\<close>) when
  pagination is on, the list of models itself otherwise.
\<close>

datatype 'a listing =
    Page "'a model list" nat raw_params
  | Plain "'a model list"

definition get_all :: "bool \<Rightarrow> raw_params \<Rightarrow> 'a store \<Rightarrow> 'a listing \<times> 'a store" where
  "get_all pagination rp st =
     (if pagination then
        (let items =
               (case limit rp of
                  None \<Rightarrow> slice (models st) (offset rp) None
                | Some l \<Rightarrow> slice (models st) (offset rp) (Some (offset rp + l)))
         in (Page items (length (models st)) rp, st))
      else (Plain (models st), st))"

subsection \<open>Reading one record\<close>

fun get_one_loop :: "int \<Rightarrow> 'a model list \<Rightarrow> exc + 'a model" where
  "get_one_loop item_id [] = Inl NOT_FOUND"
| "get_one_loop item_id (m # ms) =
     (if model_id m = item_id then Inr m else get_one_loop item_id ms)"

definition get_one :: "int \<Rightarrow> 'a store \<Rightarrow> (exc + 'a model) \<times> 'a store" where
  "get_one item_id st = (get_one_loop item_id (models st), st)"

subsection \<open>Creating\<close>

definition create ::
  "'a schema_class \<Rightarrow> 'a kwargs \<Rightarrow> 'a store \<Rightarrow> (exc + 'a model) \<times> 'a store" where
  "create sc payload st =
     (let (i, st1) = get_next_id st;
          model_dict = AList.update ''id'' (VInt i) payload
      in case schema sc model_dict of
           Inl e \<Rightarrow> (Inl e, st1)
         | Inr ready_model \<Rightarrow>
             (Inr ready_model, st1\<lparr>models := models st1 @ [ready_model]\<rparr>))"

subsection \<open>Updating\<close>

text \<open>
  The loop over \<open>enumerate(self.models)\<close>. The assignment \<open>self.models[ind] = ...\<close> and
  the read \<open>self.models[ind]\<close> raise \<open>IndexError\<close> out of range.
\<close>

fun update_loop ::
  "'a schema_class \<Rightarrow> 'a kwargs \<Rightarrow> int \<Rightarrow> (nat \<times> 'a model) list \<Rightarrow> 'a store \<Rightarrow>
   (exc + 'a model) \<times> 'a store" where
  "update_loop sc payload item_id [] st = (Inl NOT_FOUND, st)"
| "update_loop sc payload item_id ((ind, old) # rest) st =
     (if model_id old = item_id then
        (case schema_with_id sc payload (model_id old) of
           Inl e \<Rightarrow> (Inl e, st)
         | Inr new \<Rightarrow>
             (if ind < length (models st) then
                (let st' = st\<lparr>models := (models st)[ind := new]\<rparr>
                 in (Inr (models st' ! ind), st'))
              else (Inl IndexError, st)))
      else update_loop sc payload item_id rest st)"

definition update ::
  "'a schema_class \<Rightarrow> 'a kwargs \<Rightarrow> int \<Rightarrow> 'a store \<Rightarrow> (exc + 'a model) \<times> 'a store" where
  "update sc payload item_id st =
     update_loop sc payload item_id (enumerate 0 (models st)) st"

subsection \<open>Deleting\<close>

definition delete_all :: "'a store \<Rightarrow> unit \<times> 'a store" where
  "delete_all st = ((), st\<lparr>models := []\<rparr>)"

text \<open>\<open>del self.models[ind]\<close> raises \<open>IndexError\<close> out of range.\<close>

fun delete_one_loop ::
  "int \<Rightarrow> (nat \<times> 'a model) list \<Rightarrow> 'a store \<Rightarrow> (exc + 'a model) \<times> 'a store" where
  "delete_one_loop item_id [] st = (Inl NOT_FOUND, st)"
| "delete_one_loop item_id ((ind, m) # rest) st =
     (if model_id m = item_id then
        (if ind < length (models st) then
           (Inr m, st\<lparr>models := take ind (models st) @ drop (Suc ind) (models st)\<rparr>)
         else (Inl IndexError, st))
      else delete_one_loop item_id rest st)"

definition delete_one :: "int \<Rightarrow> 'a store \<Rightarrow> (exc + 'a model) \<times> 'a store" where
  "delete_one item_id st = delete_one_loop item_id (enumerate 0 (models st)) st"

subsection \<open>Sequences of requests\<close>

text \<open>
  The requests that can change the store, and the store after one of them (whether the
  route returned or raised) and after a sequence of them.
\<close>

datatype 'a op =
    Create "'a kwargs"
  | Update "'a kwargs" int
  | DeleteOne int
  | DeleteAll

fun step :: "'a schema_class \<Rightarrow> 'a op \<Rightarrow> 'a store \<Rightarrow> 'a store" where
  "step sc (Create payload) st = snd (create sc payload st)"
| "step sc (Update payload item_id) st = snd (update sc payload item_id st)"
| "step sc (DeleteOne item_id) st = snd (delete_one item_id st)"
| "step sc DeleteAll st = snd (delete_all st)"

definition run :: "'a schema_class \<Rightarrow> 'a op list \<Rightarrow> 'a store \<Rightarrow> 'a store" where
  "run sc ops st = fold (step sc) ops st"

text \<open>The identifiers of the records returned by the create requests of a sequence.\<close>

fun allocated :: "'a schema_class \<Rightarrow> 'a op list \<Rightarrow> 'a store \<Rightarrow> int list" where
  "allocated sc [] st = []"
| "allocated sc (Create payload # ops) st =
     (case fst (create sc payload st) of
        Inr m \<Rightarrow> model_id m # allocated sc ops (step sc (Create payload) st)
      | Inl e \<Rightarrow> allocated sc ops (step sc (Create payload) st))"
| "allocated sc (x # ops) st = allocated sc ops (step sc x st)"

text \<open>
  Identifier uniqueness and monotonic allocation: the stored identifiers are pairwise
  distinct and each is below the counter.
\<close>

definition ids_ok :: "'a store \<Rightarrow> bool" where
  "ids_ok st \<longleftrightarrow>
     distinct (map model_id (models st)) \<and> list_all (\<lambda>m. model_id m < next_id st) (models st)"

subsection \<open>A store of the test suite\<close>

text \<open>
  The schema of the tests with its text fields, both required; the payload the tests
  post; a payload of an update schema that declares the identifier as well; a payload of
  a create schema that declares the colour only; and the store after three posts.
\<close>

definition potato_schema :: "string schema_class" where
  "potato_schema =
     \<lparr>declared = [(''id'', None), (''color'', None), (''type'', None)],
      validate = (\<lambda>name v. Some v)\<rparr>"

definition color_only :: "string kwargs" where
  "color_only = [(''color'', VOther ''Brown'')]"

definition basic_potato :: "string kwargs" where
  "basic_potato = [(''color'', VOther ''Brown''), (''type'', VOther ''Russet'')]"

definition yellow_potato :: "string kwargs" where
  "yellow_potato = [(''color'', VOther ''yellow''), (''type'', VOther ''Russet'')]"

definition potato_with_id :: "string kwargs" where
  "potato_with_id = (''id'', VInt 7) # yellow_potato"

definition potato :: "int \<Rightarrow> string model" where
  "potato i = \<lparr>model_id = i, attrs = basic_potato\<rparr>"

definition three_potatoes :: "string store" where
  "three_potatoes = \<lparr>models = [potato 1, potato 2, potato 3], next_id = 4\<rparr>"

section \<open>The route generator\<close>

text \<open>
  A route flag of the constructor has the type \<open>Union[bool, Optional[Sequence[Depends]]]\<close>:
  a boolean, a sequence of dependencies, or \<open>None\<close>. Python tests it for truth: \<open>False\<close>,
  \<open>None\<close> and the empty sequence switch the route off.
\<close>

datatype dependency = Depends string

datatype route_flag = Flag bool | Dependencies "dependency list" | NoDependencies

fun truthy :: "route_flag \<Rightarrow> bool" where
  "truthy (Flag b) = b"
| "truthy (Dependencies ds) = (ds \<noteq> [])"
| "truthy NoDependencies = False"

text \<open>The route functions the generator builds, and the response models it declares.\<close>

datatype endpoint = GetAll | CreateOne | DeleteAllItems | GetOne | UpdateOne | DeleteOneItem

datatype response_model = PageOfSchema | ListOfSchema | Schema

text \<open>
  One call of \<open>add_api_route\<close> of the framework's router, which serves the route under
  the router's prefix followed by \<open>path\<close>.
\<close>

record route =
  path :: string
  endpoint :: endpoint
  methods :: "string list"
  response_model :: "response_model option"
  summary :: "string option"
  dependencies :: "dependency list option"
  responses :: "(int \<times> string) list option"
  status_code :: int

text \<open>The arguments of \<open>CRUDGenerator.__init__\<close> that the constructor itself reads.\<close>

record config =
  schema_name :: string
  prefix :: "string option"
  pagination :: bool
  get_all_route :: route_flag
  get_one_route :: route_flag
  create_route :: route_flag
  update_route :: route_flag
  delete_one_route :: route_flag
  delete_all_route :: route_flag
  path_param_name :: "string option"
  entity_name :: "string option"
  entity_name_plural :: "string option"
  summary_prefix :: "string option"

text \<open>The attributes of the constructed router.\<close>

record router =
  self_prefix :: string
  self_pagination :: bool
  self_entity_name :: string
  self_entity_name_plural :: string
  self_path_param_name :: string
  self_summary_prefix :: string
  routes :: "route list"

text \<open>Python on optional strings: truth, \<open>str\<close>, \<open>lower\<close>, \<open>strip\<close> and \<open>replace\<close>.\<close>

fun str_truthy :: "string option \<Rightarrow> bool" where
  "str_truthy None = False"
| "str_truthy (Some s) = (s \<noteq> [])"

fun py_str :: "string option \<Rightarrow> string" where
  "py_str None = ''None''"
| "py_str (Some s) = s"

definition lower_char :: "char \<Rightarrow> char" where
  "lower_char c =
     (let n = (of_char c :: nat) in if 65 \<le> n \<and> n \<le> 90 then char_of (n + 32) else c)"

definition lower :: "string \<Rightarrow> string" where
  "lower s = map lower_char s"

definition strip :: "char \<Rightarrow> string \<Rightarrow> string" where
  "strip c s = rev (dropWhile (\<lambda>x. x = c) (rev (dropWhile (\<lambda>x. x = c) s)))"

definition replace_char :: "char \<Rightarrow> char \<Rightarrow> string \<Rightarrow> string" where
  "replace_char a b s = map (\<lambda>x. if x = a then b else x) s"

text \<open>
  \<open>_add_api_route\<close>: a boolean flag means no dependencies; the error responses become the
  dictionary from status code to detail.
\<close>

definition add_api_route ::
  "string \<Rightarrow> endpoint \<Rightarrow> route_flag \<Rightarrow> (int \<times> string) list option \<Rightarrow> string list \<Rightarrow>
   response_model option \<Rightarrow> string option \<Rightarrow> int \<Rightarrow> router \<Rightarrow> router" where
  "add_api_route p e deps error_responses ms rm sm sc r =
     (let dependencies' =
            (case deps of Flag b \<Rightarrow> Some [] | Dependencies ds \<Rightarrow> Some ds | NoDependencies \<Rightarrow> None);
          responses' =
            (case error_responses of
               None \<Rightarrow> None
             | Some errs \<Rightarrow>
                 if errs = [] then None
                 else Some (fold (\<lambda>(code, detail) d. AList.update code detail d) errs []))
      in r\<lparr>routes := routes r @
            [\<lparr>path = p, endpoint = e, methods = ms, response_model = rm, summary = sm,
              dependencies = dependencies', responses = responses', status_code = sc\<rparr>]\<rparr>)"

definition item_path :: "string \<Rightarrow> string" where
  "item_path name = ''/{'' @ name @ ''}/''"

definition crud_generator :: "config \<Rightarrow> router" where
  "crud_generator cfg =
     (let prefix1 = lower (if str_truthy (prefix cfg) then py_str (prefix cfg) else schema_name cfg);
          prefix2 = ''/'' @ strip CHR ''/'' prefix1;
          name = (if str_truthy (entity_name cfg) then py_str (entity_name cfg) else ''Item'');
          plural = (if str_truthy (entity_name_plural cfg) then py_str (entity_name_plural cfg)
                    else py_str (entity_name cfg) @ ''s'');
          param = (case path_param_name cfg of
                     None \<Rightarrow> replace_char CHR '' '' CHR ''_'' (lower name) @ ''_id''
                   | Some n \<Rightarrow> n);
          sp = (if str_truthy (summary_prefix cfg) then py_str (summary_prefix cfg) @ '' '' else '''');
          not_found = Some [(404, ''Item not found'')];
          r0 = \<lparr>self_prefix = prefix2, self_pagination = pagination cfg, self_entity_name = name,
                self_entity_name_plural = plural, self_path_param_name = param,
                self_summary_prefix = sp, routes = []\<rparr>;
          r1 = (if truthy (get_all_route cfg) then
                  add_api_route ''/'' GetAll (get_all_route cfg) None [''GET'']
                    (Some (if pagination cfg then PageOfSchema else ListOfSchema))
                    (Some (sp @ ''List '' @ plural)) 200 r0
                else r0);
          r2 = (if truthy (create_route cfg) then
                  add_api_route ''/'' CreateOne (create_route cfg) None [''POST'']
                    (Some Schema) (Some (sp @ ''Create '' @ name)) 201 r1
                else r1);
          r3 = (if truthy (delete_all_route cfg) then
                  add_api_route ''/'' DeleteAllItems (delete_all_route cfg) None [''DELETE'']
                    None (Some (sp @ ''Remove All '' @ plural)) 204 r2
                else r2);
          r4 = (if truthy (get_one_route cfg) then
                  add_api_route (item_path param) GetOne (get_one_route cfg) not_found [''GET'']
                    (Some Schema) (Some (sp @ ''Remove '' @ name)) 200 r3
                else r3);
          r5 = (if truthy (update_route cfg) then
                  add_api_route (item_path param) UpdateOne (update_route cfg) not_found [''PATCH'']
                    (Some Schema) None 200 r4
                else r4);
          r6 = (if truthy (delete_one_route cfg) then
                  add_api_route (item_path param) DeleteOneItem (delete_one_route cfg) not_found
                    [''DELETE''] (Some Schema) None 200 r5
                else r5)
      in r6)"

definition potato_config :: config where
  "potato_config =
     \<lparr>schema_name = ''Potato'', prefix = None, pagination = True,
      get_all_route = Flag True, get_one_route = Flag True, create_route = Flag True,
      update_route = Flag True, delete_one_route = Dependencies [Depends ''token''],
      delete_all_route = Flag True, path_param_name = None, entity_name = None,
      entity_name_plural = None, summary_prefix = None\<rparr>"

section \<open>The database adapters\<close>

text \<open>
  The persistence libraries are not part of the repository. A call of a library is taken
  as a parameter: a function from the state of the database to the value it returns or
  the exception it raises, and the new state.
\<close>

type_synonym ('s, 'r) action = "'s \<Rightarrow> (exc + 'r) \<times> 's"

definition returns :: "'r \<Rightarrow> ('s, 'r) action" where
  "returns r s = (Inr r, s)"

definition raises :: "exc \<Rightarrow> ('s, 'r) action" where
  "raises e s = (Inl e, s)"

text \<open>One statement after another: an exception of the first skips the second.\<close>

definition and_then :: "('s, 'r) action \<Rightarrow> ('r \<Rightarrow> ('s, 'q) action) \<Rightarrow> ('s, 'q) action" where
  "and_then m f s = (case m s of (Inl e, s') \<Rightarrow> (Inl e, s') | (Inr r, s') \<Rightarrow> f r s')"

fun join :: "string \<Rightarrow> string list \<Rightarrow> string" where
  "join sep [] = []"
| "join sep [x] = x"
| "join sep (x # y # ys) = x @ sep @ join sep (y # ys)"

text \<open>
  \<open>CRUDGenerator._raise\<close>, given \<open>e.args\<close>: it raises the exception with the status code
  422 whatever status code it is passed.
\<close>

definition crud_raise :: "string list \<Rightarrow> ('s, 'r) action" where
  "crud_raise args = raises (HTTPException 422 (join '', '' args))"

subsection \<open>SQLAlchemy\<close>

text \<open>
  The model class and the session of SQLAlchemy: the constructor of the model class,
  \<open>db.query(self.db_model).get\<close>, \<open>db.add\<close>, \<open>db.commit\<close>, \<open>db.refresh\<close>, \<open>db.rollback\<close>,
  \<open>hasattr\<close> and \<open>setattr\<close> on a model, and the name of the primary key.
\<close>

record ('s, 'm, 'a) sqlalchemy_lib =
  sa_model :: "'a kwargs \<Rightarrow> ('s, 'm) action"
  sa_query_get :: "'a val \<Rightarrow> ('s, 'm option) action"
  sa_add :: "'m \<Rightarrow> ('s, unit) action"
  sa_commit :: "('s, unit) action"
  sa_refresh :: "'m \<Rightarrow> ('s, 'm) action"
  sa_rollback :: "('s, unit) action"
  sa_hasattr :: "'m \<Rightarrow> string \<Rightarrow> bool"
  sa_setattr :: "'m \<Rightarrow> string \<Rightarrow> 'a val \<Rightarrow> ('s, 'm) action"
  sa_pk :: string

definition sqlalchemy_get_one :: "('s, 'm, 'a) sqlalchemy_lib \<Rightarrow> 'a val \<Rightarrow> ('s, 'm) action" where
  "sqlalchemy_get_one lib item_id =
     and_then (sa_query_get lib item_id)
       (\<lambda>model. case model of Some m \<Rightarrow> returns m | None \<Rightarrow> raises NOT_FOUND)"

text \<open>The statements inside \<open>try\<close> of the create route, and the route.\<close>

definition sqlalchemy_create_body :: "('s, 'm, 'a) sqlalchemy_lib \<Rightarrow> 'a kwargs \<Rightarrow> ('s, 'm) action" where
  "sqlalchemy_create_body lib payload =
     and_then (sa_model lib payload) (\<lambda>db_model.
     and_then (sa_add lib db_model) (\<lambda>_.
     and_then (sa_commit lib) (\<lambda>_.
     sa_refresh lib db_model)))"

definition sqlalchemy_create :: "('s, 'm, 'a) sqlalchemy_lib \<Rightarrow> 'a kwargs \<Rightarrow> ('s, 'm) action" where
  "sqlalchemy_create lib payload s =
     (case sqlalchemy_create_body lib payload s of
        (Inl (IntegrityError args), s') \<Rightarrow>
          and_then (sa_rollback lib) (\<lambda>_. raises (HTTPException 422 ''Key already exists'')) s'
      | r \<Rightarrow> r)"

text \<open>The loop over the items of the payload without the primary key.\<close>

fun sqlalchemy_setattrs :: "('s, 'm, 'a) sqlalchemy_lib \<Rightarrow> 'a kwargs \<Rightarrow> 'm \<Rightarrow> ('s, 'm) action" where
  "sqlalchemy_setattrs lib [] db_model = returns db_model"
| "sqlalchemy_setattrs lib ((key, v) # items) db_model =
     (if sa_hasattr lib db_model key then
        and_then (sa_setattr lib db_model key v) (sqlalchemy_setattrs lib items)
      else sqlalchemy_setattrs lib items db_model)"

definition sqlalchemy_update_body ::
  "('s, 'm, 'a) sqlalchemy_lib \<Rightarrow> 'a kwargs \<Rightarrow> 'a val \<Rightarrow> ('s, 'm) action" where
  "sqlalchemy_update_body lib payload item_id =
     and_then (sqlalchemy_get_one lib item_id) (\<lambda>db_model.
     and_then (sqlalchemy_setattrs lib (AList.delete (sa_pk lib) payload) db_model) (\<lambda>db_model.
     and_then (sa_commit lib) (\<lambda>_.
     sa_refresh lib db_model)))"

definition sqlalchemy_update ::
  "('s, 'm, 'a) sqlalchemy_lib \<Rightarrow> 'a kwargs \<Rightarrow> 'a val \<Rightarrow> ('s, 'm) action" where
  "sqlalchemy_update lib payload item_id s =
     (case sqlalchemy_update_body lib payload item_id s of
        (Inl (IntegrityError args), s') \<Rightarrow>
          and_then (sa_rollback lib) (\<lambda>_. crud_raise args) s'
      | r \<Rightarrow> r)"

subsection \<open>Gino\<close>

text \<open>
  The model class and the database of Gino: \<open>self.db_model.create\<close>, \<open>self.db_model.get\<close>,
  \<open>db_model.update(...).apply()\<close>, and entering and leaving \<open>self.db.transaction()\<close>; the
  transaction is left with the exception of its block, if any, which it does not swallow.
\<close>

record ('s, 'm, 'a) gino_lib =
  gino_model_create :: "'a kwargs \<Rightarrow> ('s, 'm) action"
  gino_model_get :: "'a val \<Rightarrow> ('s, 'm option) action"
  gino_update_apply :: "'m \<Rightarrow> 'a kwargs \<Rightarrow> ('s, 'm) action"
  gino_enter :: "('s, unit) action"
  gino_exit :: "exc option \<Rightarrow> ('s, unit) action"
  gino_pk :: string

definition gino_transaction :: "('s, 'm, 'a) gino_lib \<Rightarrow> ('s, 'r) action \<Rightarrow> ('s, 'r) action" where
  "gino_transaction lib block =
     and_then (gino_enter lib) (\<lambda>_ s.
       case block s of
         (Inl e, s') \<Rightarrow> and_then (gino_exit lib (Some e)) (\<lambda>_. raises e) s'
       | (Inr r, s') \<Rightarrow> and_then (gino_exit lib None) (\<lambda>_. returns r) s')"

definition gino_get_one :: "('s, 'm, 'a) gino_lib \<Rightarrow> 'a val \<Rightarrow> ('s, 'm) action" where
  "gino_get_one lib item_id =
     and_then (gino_model_get lib item_id)
       (\<lambda>model. case model of Some m \<Rightarrow> returns m | None \<Rightarrow> raises NOT_FOUND)"

definition gino_create_body :: "('s, 'm, 'a) gino_lib \<Rightarrow> 'a kwargs \<Rightarrow> ('s, 'm) action" where
  "gino_create_body lib payload = gino_transaction lib (gino_model_create lib payload)"

definition gino_create :: "('s, 'm, 'a) gino_lib \<Rightarrow> 'a kwargs \<Rightarrow> ('s, 'm) action" where
  "gino_create lib payload s =
     (case gino_create_body lib payload s of
        (Inl (IntegrityError args), s') \<Rightarrow> raises (HTTPException 422 ''Key already exists'') s'
      | (Inl (UniqueViolationError args), s') \<Rightarrow> raises (HTTPException 422 ''Key already exists'') s'
      | r \<Rightarrow> r)"

definition gino_update_body :: "('s, 'm, 'a) gino_lib \<Rightarrow> 'a kwargs \<Rightarrow> 'a val \<Rightarrow> ('s, 'm) action" where
  "gino_update_body lib payload item_id =
     and_then (gino_get_one lib item_id) (\<lambda>db_model.
     gino_transaction lib (gino_update_apply lib db_model (AList.delete (gino_pk lib) payload)))"

definition gino_update :: "('s, 'm, 'a) gino_lib \<Rightarrow> 'a kwargs \<Rightarrow> 'a val \<Rightarrow> ('s, 'm) action" where
  "gino_update lib payload item_id s =
     (case gino_update_body lib payload item_id s of
        (Inl (IntegrityError args), s') \<Rightarrow> crud_raise args s'
      | (Inl (UniqueViolationError args), s') \<Rightarrow> crud_raise args s'
      | r \<Rightarrow> r)"

subsection \<open>Databases\<close>

text \<open>
  The database of the databases driver: \<open>execute\<close> of the insert, \<open>fetch_one\<close> of the
  select by primary key and of the update, whether a returned row identifier has the type
  of the primary key, and the name of the primary key. A row is the dictionary that
  \<open>pydantify_record\<close> makes of it.
\<close>

record ('s, 'a) databases_lib =
  db_execute_insert :: "'a kwargs \<Rightarrow> ('s, 'a val) action"
  db_fetch_one_select :: "'a val \<Rightarrow> ('s, 'a kwargs option) action"
  db_fetch_one_update :: "'a val \<Rightarrow> 'a kwargs \<Rightarrow> ('s, unit) action"
  db_is_pk_type :: "'a val \<Rightarrow> bool"
  db_pk :: string

definition databases_get_one :: "('s, 'a) databases_lib \<Rightarrow> 'a val \<Rightarrow> ('s, 'a kwargs) action" where
  "databases_get_one lib item_id =
     and_then (db_fetch_one_select lib item_id)
       (\<lambda>model. case model of Some m \<Rightarrow> returns m | None \<Rightarrow> raises NOT_FOUND)"

definition databases_create_body :: "('s, 'a) databases_lib \<Rightarrow> 'a kwargs \<Rightarrow> ('s, 'a kwargs) action" where
  "databases_create_body lib payload =
     and_then (db_execute_insert lib payload) (\<lambda>rid.
       databases_get_one lib
         (if db_is_pk_type lib rid then rid
          else (case map_of payload (db_pk lib) of Some v \<Rightarrow> v | None \<Rightarrow> rid)))"

definition databases_create :: "('s, 'a) databases_lib \<Rightarrow> 'a kwargs \<Rightarrow> ('s, 'a kwargs) action" where
  "databases_create lib payload s =
     (case databases_create_body lib payload s of
        (Inl e, s') \<Rightarrow> raises (HTTPException 422 ''Key already exists'') s'
      | r \<Rightarrow> r)"

definition databases_update_body ::
  "('s, 'a) databases_lib \<Rightarrow> 'a val \<Rightarrow> 'a kwargs \<Rightarrow> ('s, 'a kwargs) action" where
  "databases_update_body lib item_id payload =
     and_then (db_fetch_one_update lib item_id (AList.delete (db_pk lib) payload)) (\<lambda>_.
     databases_get_one lib item_id)"

definition databases_update ::
  "('s, 'a) databases_lib \<Rightarrow> 'a val \<Rightarrow> 'a kwargs \<Rightarrow> ('s, 'a kwargs) action" where
  "databases_update lib item_id payload s =
     (case databases_update_body lib item_id payload s of
        (Inl e, s') \<Rightarrow> raises NOT_FOUND s'
      | r \<Rightarrow> r)"

subsection \<open>Tortoise\<close>

text \<open>
  The model class of Tortoise: its constructor, \<open>save\<close>, \<open>filter(id=...).first()\<close> and
  \<open>filter(id=...).update\<close>. The routes have no \<open>try\<close>.
\<close>

record ('s, 'm, 'a) tortoise_lib =
  tt_model :: "'a kwargs \<Rightarrow> ('s, 'm) action"
  tt_save :: "'m \<Rightarrow> ('s, 'm) action"
  tt_filter_first :: "int \<Rightarrow> ('s, 'm option) action"
  tt_filter_update :: "int \<Rightarrow> 'a kwargs \<Rightarrow> ('s, unit) action"

definition tortoise_get_one :: "('s, 'm, 'a) tortoise_lib \<Rightarrow> int \<Rightarrow> ('s, 'm) action" where
  "tortoise_get_one lib item_id =
     and_then (tt_filter_first lib item_id)
       (\<lambda>model. case model of Some m \<Rightarrow> returns m | None \<Rightarrow> raises NOT_FOUND)"

definition tortoise_create :: "('s, 'm, 'a) tortoise_lib \<Rightarrow> 'a kwargs \<Rightarrow> ('s, 'm) action" where
  "tortoise_create lib payload =
     and_then (tt_model lib payload) (\<lambda>db_model. tt_save lib db_model)"

text \<open>The payload is \<open>model.dict(exclude_unset=True)\<close>, the fields the request sets.\<close>

definition tortoise_update :: "('s, 'm, 'a) tortoise_lib \<Rightarrow> 'a kwargs \<Rightarrow> int \<Rightarrow> ('s, 'm) action" where
  "tortoise_update lib payload item_id =
     and_then (tt_filter_update lib item_id payload) (\<lambda>_. tortoise_get_one lib item_id)"

subsection \<open>Libraries that report a conflict\<close>

text \<open>
  For each adapter a library over a database without state, in which the write raises the
  integrity error of a unique column: SQLAlchemy at \<open>commit\<close>, Gino (with the error of its
  driver) at \<open>create\<close> and \<open>apply\<close>, Databases at \<open>execute\<close> and at the \<open>fetch_one\<close> of the
  update, Tortoise at \<open>save\<close> and \<open>update\<close>.
\<close>

definition conflict :: "string list" where
  "conflict = [''UNIQUE constraint failed: potato.color'']"

definition sqlalchemy_conflict :: "(unit, string kwargs, string) sqlalchemy_lib" where
  "sqlalchemy_conflict =
     \<lparr>sa_model = returns, sa_query_get = (\<lambda>i. returns (Some basic_potato)),
      sa_add = (\<lambda>m. returns ()), sa_commit = raises (IntegrityError conflict),
      sa_refresh = returns, sa_rollback = returns (), sa_hasattr = (\<lambda>m k. True),
      sa_setattr = (\<lambda>m k v. returns (AList.update k v m)), sa_pk = ''id''\<rparr>"

definition gino_conflict :: "(unit, string kwargs, string) gino_lib" where
  "gino_conflict =
     \<lparr>gino_model_create = (\<lambda>kw. raises (UniqueViolationError conflict)),
      gino_model_get = (\<lambda>i. returns (Some basic_potato)),
      gino_update_apply = (\<lambda>m kw. raises (UniqueViolationError conflict)),
      gino_enter = returns (), gino_exit = (\<lambda>e. returns ()), gino_pk = ''id''\<rparr>"

definition databases_conflict :: "(unit, string) databases_lib" where
  "databases_conflict =
     \<lparr>db_execute_insert = (\<lambda>kw. raises (IntegrityError conflict)),
      db_fetch_one_select = (\<lambda>i. returns (Some basic_potato)),
      db_fetch_one_update = (\<lambda>i kw. raises (IntegrityError conflict)),
      db_is_pk_type = (\<lambda>v. case v of VInt n \<Rightarrow> True | VOther x \<Rightarrow> False), db_pk = ''id''\<rparr>"

definition tortoise_conflict :: "(unit, string kwargs, string) tortoise_lib" where
  "tortoise_conflict =
     \<lparr>tt_model = returns, tt_save = (\<lambda>m. raises (IntegrityError conflict)),
      tt_filter_first = (\<lambda>i. returns (Some basic_potato)),
      tt_filter_update = (\<lambda>i kw. raises (IntegrityError conflict))\<rparr>"

section \<open>Properties of the in-memory router\<close>

subsection \<open>The schema constructor\<close>

lemma validate_fields_cong:
  assumes "\<forall>k \<in> fst ` set decl. map_of kw k = map_of kw' k"
  shows "validate_fields sc decl kw = validate_fields sc decl kw'"
  using assms by (induction decl) (auto split: option.splits)

lemma fields_of_update_id: "fields_of sc (AList.update ''id'' v d) = fields_of sc d"
  unfolding fields_of_def
proof (rule validate_fields_cong, rule ballI)
  fix k assume "k \<in> fst ` set (AList.delete ''id'' (declared sc))"
  then have "k \<noteq> ''id''" using delete_notin_dom [of "''id''" "declared sc"] by force
  then show "map_of (AList.update ''id'' v d) k = map_of d k" by (simp add: update_conv')
qed

lemma fields_of_append_id: "fields_of sc (d @ [(''id'', v)]) = fields_of sc d"
  unfolding fields_of_def
proof (rule validate_fields_cong, rule ballI)
  fix k assume "k \<in> fst ` set (AList.delete ''id'' (declared sc))"
  then have "k \<noteq> ''id''" using delete_notin_dom [of "''id''" "declared sc"] by force
  then show "map_of (d @ [(''id'', v)]) k = map_of d k"
    by (auto simp: map_add_def split: option.splits)
qed

lemma schema_update_id:
  "schema sc (AList.update ''id'' (VInt i) d) =
     (case fields_of sc d of
        None \<Rightarrow> Inl ValidationError
      | Some fs \<Rightarrow> Inr \<lparr>model_id = i, attrs = fs\<rparr>)"
  by (simp add: schema_def update_conv' fields_of_update_id)

lemma schema_with_id_eq:
  "schema_with_id sc d i =
     (if ''id'' \<in> fst ` set d then Inl TypeError
      else case fields_of sc d of
             None \<Rightarrow> Inl ValidationError
           | Some fs \<Rightarrow> Inr \<lparr>model_id = i, attrs = fs\<rparr>)"
proof (cases "''id'' \<in> fst ` set d")
  case True
  then show ?thesis by (simp add: schema_with_id_def)
next
  case False
  then have "map_of d ''id'' = None"
    by (simp add: map_of_eq_None_iff)
  then have "map_of (d @ [(''id'', VInt i)]) ''id'' = Some (VInt i)"
    by (simp add: map_add_def)
  with False show ?thesis
    by (simp add: schema_with_id_def schema_def fields_of_append_id)
qed

subsection \<open>The loops\<close>

lemma get_one_loop_miss:
  "\<forall>m \<in> set ms. model_id m \<noteq> i \<Longrightarrow> get_one_loop i ms = Inl NOT_FOUND"
  by (induction ms) simp_all

lemma get_one_loop_hit:
  "\<forall>x \<in> set a. model_id x \<noteq> i \<Longrightarrow> model_id m = i \<Longrightarrow> get_one_loop i (a @ m # b) = Inr m"
  by (induction a) simp_all

lemma update_loop_miss:
  "\<forall>m \<in> set ms. model_id m \<noteq> i \<Longrightarrow>
     update_loop sc p i (enumerate n ms) st = (Inl NOT_FOUND, st)"
  by (induction ms arbitrary: n) simp_all

lemma update_loop_hit:
  assumes "models st = pre @ a @ m # b"
    and "\<forall>x \<in> set a. model_id x \<noteq> i"
    and "model_id m = i"
  shows "update_loop sc p i (enumerate (length pre) (a @ m # b)) st =
           (case schema_with_id sc p i of
              Inl e \<Rightarrow> (Inl e, st)
            | Inr new \<Rightarrow> (Inr new, st\<lparr>models := pre @ a @ new # b\<rparr>))"
  using assms
proof (induction a arbitrary: pre)
  case Nil
  then show ?case by (simp split: sum.splits)
next
  case (Cons x a)
  from Cons.prems have "models st = (pre @ [x]) @ a @ m # b" by simp
  from Cons.IH [OF this] Cons.prems show ?case by (simp split: sum.splits)
qed

lemma delete_one_loop_miss:
  "\<forall>m \<in> set ms. model_id m \<noteq> i \<Longrightarrow> delete_one_loop i (enumerate n ms) st = (Inl NOT_FOUND, st)"
  by (induction ms arbitrary: n) simp_all

lemma delete_one_loop_hit:
  assumes "models st = pre @ a @ m # b"
    and "\<forall>x \<in> set a. model_id x \<noteq> i"
    and "model_id m = i"
  shows "delete_one_loop i (enumerate (length pre) (a @ m # b)) st =
           (Inr m, st\<lparr>models := pre @ a @ b\<rparr>)"
  using assms
proof (induction a arbitrary: pre)
  case Nil
  then show ?case by simp
next
  case (Cons x a)
  from Cons.prems have "models st = (pre @ [x]) @ a @ m # b" by simp
  from Cons.IH [OF this] Cons.prems show ?case by simp
qed

subsection \<open>The routes on a store with and without the identifier\<close>

lemma get_one_miss:
  "\<forall>m \<in> set (models st). model_id m \<noteq> i \<Longrightarrow> get_one i st = (Inl NOT_FOUND, st)"
  by (simp add: get_one_def get_one_loop_miss)

lemma get_one_hit:
  "models st = a @ m # b \<Longrightarrow> \<forall>x \<in> set a. model_id x \<noteq> i \<Longrightarrow> model_id m = i \<Longrightarrow>
     get_one i st = (Inr m, st)"
  by (simp add: get_one_def get_one_loop_hit)

lemma update_miss:
  "\<forall>m \<in> set (models st). model_id m \<noteq> i \<Longrightarrow> update sc p i st = (Inl NOT_FOUND, st)"
  by (simp add: update_def update_loop_miss)

lemma update_hit:
  assumes "models st = a @ m # b"
    and "\<forall>x \<in> set a. model_id x \<noteq> i"
    and "model_id m = i"
  shows "update sc p i st =
           (if ''id'' \<in> fst ` set p then (Inl TypeError, st)
            else case fields_of sc p of
                   None \<Rightarrow> (Inl ValidationError, st)
                 | Some fs \<Rightarrow>
                     (Inr \<lparr>model_id = i, attrs = fs\<rparr>,
                      st\<lparr>models := a @ \<lparr>model_id = i, attrs = fs\<rparr> # b\<rparr>))"
  using update_loop_hit [where st = st and pre = "[]" and a = a and m = m and b = b
      and i = i and sc = sc and p = p] assms
  by (simp add: update_def schema_with_id_eq split: option.splits)

lemma delete_one_miss:
  "\<forall>m \<in> set (models st). model_id m \<noteq> i \<Longrightarrow> delete_one i st = (Inl NOT_FOUND, st)"
  by (simp add: delete_one_def delete_one_loop_miss)

lemma delete_one_hit:
  assumes "models st = a @ m # b"
    and "\<forall>x \<in> set a. model_id x \<noteq> i"
    and "model_id m = i"
  shows "delete_one i st = (Inr m, st\<lparr>models := a @ b\<rparr>)"
  using delete_one_loop_hit [of st "[]" a m b i] assms by (simp add: delete_one_def)

lemma first_match:
  assumes "\<exists>m \<in> set ms. model_id m = i"
  obtains a m b where "ms = a @ m # b" and "model_id m = i" and "\<forall>x \<in> set a. model_id x \<noteq> i"
  using split_list_first_prop [OF assms] by blast

lemma create_eq:
  "create sc payload st =
     (case fields_of sc payload of
        None \<Rightarrow> (Inl ValidationError, st\<lparr>next_id := next_id st + 1\<rparr>)
      | Some fs \<Rightarrow>
          (Inr \<lparr>model_id = next_id st, attrs = fs\<rparr>,
           \<lparr>models = models st @ [\<lparr>model_id = next_id st, attrs = fs\<rparr>],
            next_id = next_id st + 1\<rparr>))"
  by (simp add: create_def get_next_id_def schema_update_id split: option.splits)

lemma create_rejected:
  "fields_of sc payload = None \<Longrightarrow>
     create sc payload st = (Inl ValidationError, st\<lparr>next_id := next_id st + 1\<rparr>)"
  by (simp add: create_eq)

lemma update_cases:
  obtains (miss) "\<forall>m \<in> set (models st). model_id m \<noteq> i" and "update sc p i st = (Inl NOT_FOUND, st)"
  | (raised) e where "e = TypeError \<or> e = ValidationError"
      and "\<exists>m \<in> set (models st). model_id m = i" and "update sc p i st = (Inl e, st)"
  | (hit) a m b fs where "models st = a @ m # b" and "model_id m = i"
      and "\<forall>x \<in> set a. model_id x \<noteq> i" and "''id'' \<notin> fst ` set p"
      and "fields_of sc p = Some fs"
      and "update sc p i st = (Inr \<lparr>model_id = i, attrs = fs\<rparr>,
                              st\<lparr>models := a @ \<lparr>model_id = i, attrs = fs\<rparr> # b\<rparr>)"
proof (cases "\<exists>m \<in> set (models st). model_id m = i")
  case False
  then show ?thesis using miss update_miss [where st = st and i = i] by blast
next
  case True
  then obtain a m b where d: "models st = a @ m # b" "model_id m = i" "\<forall>x \<in> set a. model_id x \<noteq> i"
    by (rule first_match)
  note h = update_hit [OF d(1) d(3) d(2), where sc = sc and p = p]
  show ?thesis
  proof (cases "''id'' \<in> fst ` set p")
    case True
    with h have "update sc p i st = (Inl TypeError, st)" by simp
    then show ?thesis using raised \<open>\<exists>m \<in> set (models st). model_id m = i\<close> by blast
  next
    case False
    show ?thesis
    proof (cases "fields_of sc p")
      case None
      with h False have "update sc p i st = (Inl ValidationError, st)" by simp
      then show ?thesis using raised \<open>\<exists>m \<in> set (models st). model_id m = i\<close> by blast
    next
      case (Some fs)
      with h False have "update sc p i st =
          (Inr \<lparr>model_id = i, attrs = fs\<rparr>, st\<lparr>models := a @ \<lparr>model_id = i, attrs = fs\<rparr> # b\<rparr>)"
        by simp
      then show ?thesis using hit [OF d False Some] by blast
    qed
  qed
qed

lemma delete_one_cases:
  obtains (miss) "\<forall>m \<in> set (models st). model_id m \<noteq> i" and "delete_one i st = (Inl NOT_FOUND, st)"
  | (hit) a m b where "models st = a @ m # b" and "model_id m = i"
      and "\<forall>x \<in> set a. model_id x \<noteq> i"
      and "delete_one i st = (Inr m, st\<lparr>models := a @ b\<rparr>)"
proof (cases "\<exists>m \<in> set (models st). model_id m = i")
  case False
  then show ?thesis using miss delete_one_miss [of st i] by blast
next
  case True
  then obtain a m b where d: "models st = a @ m # b" "model_id m = i" "\<forall>x \<in> set a. model_id x \<noteq> i"
    by (rule first_match)
  then show ?thesis using hit [OF d] delete_one_hit [OF d(1) d(3) d(2)] by simp
qed

subsection \<open>One request\<close>

lemma update_keeps_ids:
  "map model_id (models (snd (update sc p i st))) = map model_id (models st)"
  by (cases rule: update_cases [where st = st and i = i and p = p and sc = sc]) simp_all

lemma update_keeps_next_id: "next_id (snd (update sc p i st)) = next_id st"
  by (cases rule: update_cases [where st = st and i = i and p = p and sc = sc]) simp_all

lemma delete_one_keeps_next_id: "next_id (snd (delete_one i st)) = next_id st"
  by (cases rule: delete_one_cases [where st = st and i = i]) simp_all

lemma create_next_id: "next_id (snd (create sc payload st)) = next_id st + 1"
  by (simp add: create_eq split: option.splits)

lemma step_next_id: "next_id st \<le> next_id (step sc x st)"
  by (cases x)
    (simp_all add: create_next_id update_keeps_next_id delete_one_keeps_next_id delete_all_def)

lemma ids_ok_iff:
  "ids_ok st \<longleftrightarrow>
     distinct (map model_id (models st)) \<and> (\<forall>m \<in> set (models st). model_id m < next_id st)"
  by (simp add: ids_ok_def list_all_iff)

lemma create_ids_ok:
  assumes "ids_ok st"
  shows "ids_ok (snd (create sc payload st))"
proof -
  from assms have d: "distinct (map model_id (models st))"
    and b: "\<forall>m \<in> set (models st). model_id m < next_id st"
    by (simp_all add: ids_ok_iff)
  from b have n: "next_id st \<notin> model_id ` set (models st)" by force
  show ?thesis
  proof (cases "fields_of sc payload")
    case None
    with d b show ?thesis by (simp add: ids_ok_iff create_eq) force
  next
    case (Some fs)
    with d b n show ?thesis by (simp add: ids_ok_iff create_eq) force
  qed
qed

lemma update_ids_ok:
  assumes "ids_ok st"
  shows "ids_ok (snd (update sc p i st))"
proof -
  let ?st' = "snd (update sc p i st)"
  have e: "map model_id (models ?st') = map model_id (models st)" by (rule update_keeps_ids)
  then have "set (map model_id (models ?st')) = set (map model_id (models st))" by simp
  then have s: "model_id ` set (models ?st') = model_id ` set (models st)" by simp
  have "model_id m < next_id st" if "m \<in> set (models ?st')" for m
  proof -
    from that s have "model_id m \<in> model_id ` set (models st)" by blast
    with assms show ?thesis by (auto simp: ids_ok_iff)
  qed
  with assms e show ?thesis by (simp add: ids_ok_iff update_keeps_next_id)
qed

lemma delete_one_ids_ok:
  assumes "ids_ok st"
  shows "ids_ok (snd (delete_one i st))"
proof (cases rule: delete_one_cases [where st = st and i = i])
  case miss
  with assms show ?thesis by simp
next
  case (hit a m b)
  with assms show ?thesis by (auto simp: ids_ok_iff)
qed

lemma step_ids_ok: "ids_ok st \<Longrightarrow> ids_ok (step sc x st)"
  by (cases x) (simp_all add: create_ids_ok update_ids_ok delete_one_ids_ok, simp add: ids_ok_iff delete_all_def)

lemma run_ids_ok: "ids_ok st \<Longrightarrow> ids_ok (run sc ops st)"
  unfolding run_def by (induction ops arbitrary: st) (simp_all add: step_ids_ok)

lemma allocated_fresh:
  "distinct (allocated sc ops st) \<and> (\<forall>j \<in> set (allocated sc ops st). next_id st \<le> j)"
proof (induction ops arbitrary: st)
  case Nil
  show ?case by simp
next
  case (Cons x ops)
  show ?case
  proof (cases x)
    case (Create payload)
    let ?st' = "step sc (Create payload) st"
    have n: "next_id ?st' = next_id st + 1" by (simp add: create_next_id)
    from Cons.IH [of ?st'] n
    have i: "distinct (allocated sc ops ?st')" "\<forall>j \<in> set (allocated sc ops ?st'). next_id st < j"
      by auto
    show ?thesis
    proof (cases "fields_of sc payload")
      case None
      with Create i show ?thesis by (auto simp: create_eq)
    next
      case (Some fs)
      with Create i show ?thesis by (auto simp: create_eq)
    qed
  next
    case (Update payload item_id)
    with Cons.IH [of "step sc x st"] step_next_id [of st sc x] show ?thesis by auto
  next
    case (DeleteOne item_id)
    with Cons.IH [of "step sc x st"] step_next_id [of st sc x] show ?thesis by auto
  next
    case DeleteAll
    with Cons.IH [of "step sc x st"] step_next_id [of st sc x] show ?thesis by auto
  qed
qed

lemma potato_fields:
  "fields_of potato_schema basic_potato = Some basic_potato"
  "fields_of potato_schema yellow_potato = Some yellow_potato"
  "fields_of potato_schema potato_with_id = Some yellow_potato"
  "fields_of potato_schema color_only = None"
  by (simp_all add: fields_of_def potato_schema_def basic_potato_def yellow_potato_def
      potato_with_id_def color_only_def)

section \<open>The claims about the in-memory router\<close>

text \<open>
  C1. In every state reached from the initial empty store by a sequence of create,
  update, delete-one and delete-all requests, the identifiers of the stored records are
  pairwise distinct and each of them is below the counter.
\<close>

theorem reachable_ids_distinct_below_counter:
  "distinct (map model_id (models (run sc ops init))) \<and>
   list_all (\<lambda>m. model_id m < next_id (run sc ops init)) (models (run sc ops init))"
proof -
  have "ids_ok (init :: 'a store)" by (simp add: ids_ok_def init_def)
  then have "ids_ok (run sc ops (init :: 'a store))" by (rule run_ids_ok)
  then show ?thesis by (simp add: ids_ok_def)
qed

theorem reachable_ids_distinct_below_counter_witness:
  "distinct (map model_id (models (run potato_schema [Create basic_potato, Create potato_with_id,
       Create color_only, DeleteOne 1, Update yellow_potato 2, DeleteAll, Create basic_potato] init))) \<and>
   list_all (\<lambda>m. model_id m < next_id (run potato_schema [Create basic_potato, Create potato_with_id,
       Create color_only, DeleteOne 1, Update yellow_potato 2, DeleteAll, Create basic_potato] init))
     (models (run potato_schema [Create basic_potato, Create potato_with_id,
       Create color_only, DeleteOne 1, Update yellow_potato 2, DeleteAll, Create basic_potato] init))"
  by (rule reachable_ids_distinct_below_counter)

subsection \<open>Creating\<close>

text \<open>
  C2, as the claim states it: for every store and every create payload, create appends a
  record and returns it. It does not when the schema rejects the payload: with the potato
  schema, whose colour and type are required, and the payload of a create schema that
  declares the colour only, create raises the validation error on the initial store and
  appends nothing, after the counter has advanced.
\<close>

theorem create_rejected_payload_appends_nothing:
  "create potato_schema color_only init = (Inl ValidationError, \<lparr>models = [], next_id = 2\<rparr>)"
  by (simp add: create_eq potato_fields init_def)

text \<open>
  C2, amended. For every store and every create payload that the schema accepts, create
  appends exactly one record at the end of the list of models, the one the schema builds
  from the payload; its identifier is the current value of the counter, whatever
  identifier the payload carries; the counter grows by one; the appended record is the one
  returned.
\<close>

theorem create_appends_next_id:
  assumes "fields_of sc payload = Some fs"
  shows "\<exists>new. fst (create sc payload st) = Inr new \<and>
     models (snd (create sc payload st)) = models st @ [new] \<and>
     model_id new = next_id st \<and>
     attrs new = fs \<and>
     next_id (snd (create sc payload st)) = next_id st + 1"
  using assms by (simp add: create_eq)

theorem create_appends_next_id_witness:
  "fields_of potato_schema potato_with_id = Some yellow_potato \<and>
   create potato_schema potato_with_id three_potatoes =
     (Inr \<lparr>model_id = 4, attrs = yellow_potato\<rparr>,
      \<lparr>models = [potato 1, potato 2, potato 3, \<lparr>model_id = 4, attrs = yellow_potato\<rparr>],
       next_id = 5\<rparr>)"
proof -
  have h: "fields_of potato_schema potato_with_id = Some yellow_potato"
    by (rule potato_fields)
  from create_appends_next_id [OF h, of three_potatoes]
  obtain new where n: "fst (create potato_schema potato_with_id three_potatoes) = Inr new"
      "models (snd (create potato_schema potato_with_id three_potatoes)) =
        models three_potatoes @ [new]"
      "model_id new = next_id three_potatoes" "attrs new = yellow_potato"
      "next_id (snd (create potato_schema potato_with_id three_potatoes)) =
        next_id three_potatoes + 1"
    by blast
  from n(3,4) have "new = \<lparr>model_id = 4, attrs = yellow_potato\<rparr>"
    by (simp add: three_potatoes_def)
  with n(1,2,5) have "create potato_schema potato_with_id three_potatoes =
     (Inr \<lparr>model_id = 4, attrs = yellow_potato\<rparr>,
      \<lparr>models = [potato 1, potato 2, potato 3, \<lparr>model_id = 4, attrs = yellow_potato\<rparr>],
       next_id = 5\<rparr>)"
    by (cases "create potato_schema potato_with_id three_potatoes")
      (simp add: three_potatoes_def)
  with h show ?thesis by simp
qed

subsection \<open>Not found, and the update of an existing record\<close>

text \<open>
  Get-one and delete-one raise the 404 exception exactly when no stored record has the
  identifier, and otherwise return a record with that identifier. Update raises the 404
  exception exactly when no stored record has the identifier, too; on an existing record
  it returns the new record when the payload has no entry \<open>id\<close> and the schema accepts it.
\<close>

lemma get_one_not_found_iff:
  "fst (get_one item_id st) = Inl NOT_FOUND \<longleftrightarrow> (\<forall>m \<in> set (models st). model_id m \<noteq> item_id)"
proof (cases "\<exists>m \<in> set (models st). model_id m = item_id")
  case False
  then show ?thesis by (simp add: get_one_miss)
next
  case True
  then obtain a m b where "models st = a @ m # b" "model_id m = item_id"
      "\<forall>x \<in> set a. model_id x \<noteq> item_id"
    by (rule first_match)
  then show ?thesis using get_one_hit [of st a m b item_id] by auto
qed

lemma get_one_found:
  assumes "\<exists>m \<in> set (models st). model_id m = item_id"
  shows "\<exists>r. fst (get_one item_id st) = Inr r \<and> model_id r = item_id"
proof -
  from assms obtain a m b where "models st = a @ m # b" "model_id m = item_id"
      "\<forall>x \<in> set a. model_id x \<noteq> item_id"
    by (rule first_match)
  then show ?thesis using get_one_hit [of st a m b item_id] by auto
qed

lemma delete_one_not_found_iff:
  "fst (delete_one item_id st) = Inl NOT_FOUND \<longleftrightarrow>
     (\<forall>m \<in> set (models st). model_id m \<noteq> item_id)"
  by (cases rule: delete_one_cases [where st = st and i = item_id]) auto

lemma delete_one_found:
  assumes "\<exists>m \<in> set (models st). model_id m = item_id"
  shows "\<exists>r. fst (delete_one item_id st) = Inr r \<and> model_id r = item_id"
  using assms by (cases rule: delete_one_cases [where st = st and i = item_id]) auto

lemma update_not_found_iff:
  "fst (update sc payload item_id st) = Inl NOT_FOUND \<longleftrightarrow>
     (\<forall>m \<in> set (models st). model_id m \<noteq> item_id)"
  by (cases rule: update_cases [where st = st and i = item_id and p = payload and sc = sc])
    (auto simp: NOT_FOUND_def)

lemma update_without_id:
  assumes "models st = a @ m # b" and "\<forall>x \<in> set a. model_id x \<noteq> item_id"
    and "model_id m = item_id" and "''id'' \<notin> fst ` set payload"
    and "fields_of sc payload = Some fs"
  shows "update sc payload item_id st =
           (Inr \<lparr>model_id = item_id, attrs = fs\<rparr>,
            st\<lparr>models := a @ \<lparr>model_id = item_id, attrs = fs\<rparr> # b\<rparr>)"
  using update_hit [OF assms(1-3), where sc = sc and p = payload] assms(4,5) by simp

lemma three_potatoes_reachable:
  "run potato_schema [Create basic_potato, Create basic_potato, Create basic_potato] init =
     three_potatoes"
  by (simp add: run_def create_eq potato_fields init_def three_potatoes_def potato_def)

text \<open>
  C3. Get-one, update and delete-one raise the 404 exception if and only if no stored
  record has the identifier \<open>item_id\<close>, and otherwise return a record with that
  identifier. The code departs from this in update: on the store of three potatoes,
  get-one finds the record 1, and the update of record 1 with a payload that has an entry
  \<open>id\<close> neither raises the 404 exception nor returns a record; it raises \<open>TypeError\<close>.
\<close>

theorem update_of_found_record_raises:
  "get_one 1 three_potatoes = (Inr (potato 1), three_potatoes) \<and>
   fst (update potato_schema potato_with_id 1 three_potatoes) = Inl TypeError"
  by (simp add: get_one_def update_def three_potatoes_def potato_def potato_with_id_def
      schema_with_id_def)

text \<open>
  C4. On a store that holds a record with the identifier \<open>item_id\<close>, update replaces the
  entry at that position with a record built from the payload, keeps the identifier,
  returns the new entry and leaves the other entries and the counter alone. The code
  departs from this when the payload has an entry \<open>id\<close>: the update of record 2 of the
  three potatoes raises \<open>TypeError\<close> and replaces nothing.
\<close>

theorem update_with_id_in_payload_replaces_nothing:
  "update potato_schema potato_with_id 2 three_potatoes = (Inl TypeError, three_potatoes)"
  by (simp add: update_def three_potatoes_def potato_def potato_with_id_def schema_with_id_def)

subsection \<open>Pagination\<close>

lemma slice_from:
  assumes "0 \<le> a"
  shows "slice xs a None = drop (nat a) xs"
  using assms by (simp add: slice_def slice_bound_def Let_def)

lemma slice_from_to:
  assumes "0 \<le> a" and "0 \<le> l"
  shows "slice xs a (Some (a + l)) = take (nat l) (drop (nat a) xs)"
proof (cases "int (length xs) < a")
  case True
  with assms show ?thesis by (simp add: slice_def slice_bound_def Let_def)
next
  case False
  with assms have lo: "slice_bound (length xs) a = nat a" by (simp add: slice_bound_def)
  show ?thesis
  proof (cases "int (length xs) < a + l")
    case True
    with assms False lo show ?thesis
      by (simp add: slice_def slice_bound_def Let_def)
  next
    case False
    with assms have "slice_bound (length xs) (a + l) = nat a + nat l"
      by (simp add: slice_bound_def nat_add_distrib)
    with lo show ?thesis by (simp add: slice_def Let_def)
  qed
qed

text \<open>
  C5. With pagination on, for every store and every offset and limit resolved by the
  pagination library (neither is negative), the list route returns the models from index
  \<open>offset\<close> on, at most \<open>limit\<close> of them (all of them when there is no limit), together
  with the length of the whole list as the total; the store is unchanged.
\<close>

theorem get_all_page_is_slice:
  assumes "0 \<le> offset rp"
    and "case limit rp of None \<Rightarrow> True | Some l \<Rightarrow> 0 \<le> l"
  shows "get_all True rp st =
           (Page (case limit rp of
                    None \<Rightarrow> drop (nat (offset rp)) (models st)
                  | Some l \<Rightarrow> take (nat l) (drop (nat (offset rp)) (models st)))
                 (length (models st)) rp,
            st)"
  using assms by (simp add: get_all_def slice_from slice_from_to split: option.splits)

theorem get_all_page_is_slice_witness:
  "get_all True \<lparr>limit = Some 2, offset = 1\<rparr> three_potatoes =
     (Page [potato 2, potato 3] 3 \<lparr>limit = Some 2, offset = 1\<rparr>, three_potatoes)"
  using get_all_page_is_slice [of "\<lparr>limit = Some 2, offset = 1\<rparr>" three_potatoes]
  by (simp add: three_potatoes_def)

subsection \<open>Deleting one record\<close>

text \<open>
  C6. On a store that holds a record with the identifier \<open>item_id\<close>, delete-one removes
  the first entry with that identifier, returns it, and keeps the entries before and
  after it in their order.
\<close>

theorem delete_one_removes_first_match:
  assumes "\<exists>m \<in> set (models st). model_id m = item_id"
  shows "\<exists>a m b. models st = a @ m # b \<and> (\<forall>x \<in> set a. model_id x \<noteq> item_id) \<and>
           model_id m = item_id \<and>
           delete_one item_id st = (Inr m, st\<lparr>models := a @ b\<rparr>)"
proof -
  from assms obtain a m b where d: "models st = a @ m # b" "model_id m = item_id"
      "\<forall>x \<in> set a. model_id x \<noteq> item_id"
    by (rule first_match)
  from delete_one_hit [OF d(1) d(3) d(2)] d show ?thesis by blast
qed

theorem delete_one_removes_first_match_witness:
  "(\<exists>m \<in> set (models three_potatoes). model_id m = 2) \<and>
   (\<exists>a m b. models three_potatoes = a @ m # b \<and> (\<forall>x \<in> set a. model_id x \<noteq> 2) \<and>
      model_id m = 2 \<and>
      delete_one 2 three_potatoes = (Inr m, three_potatoes\<lparr>models := a @ b\<rparr>))"
proof -
  have h: "\<exists>m \<in> set (models three_potatoes). model_id m = 2"
    by (simp add: three_potatoes_def potato_def)
  from h delete_one_removes_first_match [OF h] show ?thesis by blast
qed

subsection \<open>Errors leave the store alone\<close>

text \<open>
  C9. Whenever get-one, update or delete-one raises the 404 exception, the store (the list
  of models and the counter) after the request is the store before it.
\<close>

theorem not_found_leaves_store:
  "(fst (get_one item_id st) = Inl (HTTPException 404 d) \<longrightarrow> snd (get_one item_id st) = st) \<and>
   (fst (update sc payload item_id st) = Inl (HTTPException 404 d) \<longrightarrow>
      snd (update sc payload item_id st) = st) \<and>
   (fst (delete_one item_id st) = Inl (HTTPException 404 d) \<longrightarrow>
      snd (delete_one item_id st) = st)"
proof (intro conjI impI)
  show "snd (get_one item_id st) = st" by (simp add: get_one_def)
next
  assume "fst (update sc payload item_id st) = Inl (HTTPException 404 d)"
  then show "snd (update sc payload item_id st) = st"
    by (cases rule: update_cases [where st = st and i = item_id and p = payload and sc = sc]) auto
next
  assume "fst (delete_one item_id st) = Inl (HTTPException 404 d)"
  then show "snd (delete_one item_id st) = st"
    by (cases rule: delete_one_cases [where st = st and i = item_id]) simp_all
qed

theorem not_found_leaves_store_witness:
  "get_one 4 three_potatoes = (Inl (HTTPException 404 ''Item not found''), three_potatoes) \<and>
   update potato_schema yellow_potato 4 three_potatoes =
     (Inl (HTTPException 404 ''Item not found''), three_potatoes) \<and>
   delete_one 4 three_potatoes = (Inl (HTTPException 404 ''Item not found''), three_potatoes)"
proof -
  have g: "fst (get_one 4 three_potatoes) = Inl (HTTPException 404 ''Item not found'')"
    by (simp add: get_one_def three_potatoes_def potato_def NOT_FOUND_def)
  have u: "fst (update potato_schema yellow_potato 4 three_potatoes) =
      Inl (HTTPException 404 ''Item not found'')"
    by (simp add: update_def three_potatoes_def potato_def NOT_FOUND_def)
  have e: "fst (delete_one 4 three_potatoes) = Inl (HTTPException 404 ''Item not found'')"
    by (simp add: delete_one_def three_potatoes_def potato_def NOT_FOUND_def)
  from g u e not_found_leaves_store [where item_id = 4 and st = three_potatoes
      and d = "''Item not found''" and payload = yellow_potato and sc = potato_schema]
  show ?thesis by (metis prod.collapse)
qed

subsection \<open>Identifiers are never allocated twice\<close>

text \<open>
  C10. Delete-all empties the list of models and leaves the counter as it is; so in any
  sequence of requests from the initial store, delete-all included, the identifiers that
  create hands out are pairwise distinct.
\<close>

theorem delete_all_keeps_counter:
  "models (snd (delete_all st)) = [] \<and> next_id (snd (delete_all st)) = next_id st \<and>
   distinct (allocated sc ops init)"
  using allocated_fresh [of sc ops init] by (simp add: delete_all_def)

theorem delete_all_keeps_counter_witness:
  "allocated potato_schema
     [Create basic_potato, Create potato_with_id, DeleteAll, Create basic_potato] init = [1, 2, 3] \<and>
   distinct (allocated potato_schema
     [Create basic_potato, Create potato_with_id, DeleteAll, Create basic_potato] init)"
  using delete_all_keeps_counter [where sc = potato_schema
      and ops = "[Create basic_potato, Create potato_with_id, DeleteAll, Create basic_potato]"]
  by (simp add: create_eq potato_fields init_def delete_all_def)

section \<open>The claim about the routes\<close>

text \<open>
  C7. A router constructed with all six route flags on registers exactly six routes, in
  this order: GET, POST and DELETE on the collection path, then GET, PATCH and DELETE on
  the path of one item, \<open>/{path_param_name}/\<close>; the status code is 200 for the two GET
  routes, PATCH and the DELETE of one item, 201 for POST and 204 for the DELETE of the
  collection.
\<close>

theorem all_flags_six_routes:
  assumes "truthy (get_all_route cfg)" and "truthy (create_route cfg)"
    and "truthy (delete_all_route cfg)" and "truthy (get_one_route cfg)"
    and "truthy (update_route cfg)" and "truthy (delete_one_route cfg)"
  shows "map (\<lambda>r. (path r, methods r, status_code r)) (routes (crud_generator cfg)) =
           [(''/'', [''GET''], 200), (''/'', [''POST''], 201), (''/'', [''DELETE''], 204),
            (''/{'' @ self_path_param_name (crud_generator cfg) @ ''}/'', [''GET''], 200),
            (''/{'' @ self_path_param_name (crud_generator cfg) @ ''}/'', [''PATCH''], 200),
            (''/{'' @ self_path_param_name (crud_generator cfg) @ ''}/'', [''DELETE''], 200)]"
  using assms by (simp add: crud_generator_def add_api_route_def item_path_def Let_def)

theorem all_flags_six_routes_witness:
  "map (\<lambda>r. (path r, methods r, status_code r)) (routes (crud_generator potato_config)) =
           [(''/'', [''GET''], 200), (''/'', [''POST''], 201), (''/'', [''DELETE''], 204),
            (''/{item_id}/'', [''GET''], 200),
            (''/{item_id}/'', [''PATCH''], 200),
            (''/{item_id}/'', [''DELETE''], 200)]"
proof -
  have p: "self_path_param_name (crud_generator potato_config) = ''item_id''"
    by code_simp
  have "truthy (get_all_route potato_config)" "truthy (create_route potato_config)"
    "truthy (delete_all_route potato_config)" "truthy (get_one_route potato_config)"
    "truthy (update_route potato_config)" "truthy (delete_one_route potato_config)"
    by (simp_all add: potato_config_def)
  from all_flags_six_routes [OF this] p show ?thesis by simp
qed

section \<open>The claim about the database adapters\<close>

lemma sqlalchemy_create_conflict:
  assumes "sqlalchemy_create_body lib payload s = (Inl (IntegrityError args), s')"
    and "sa_rollback lib s' = (Inr (), s'')"
  shows "sqlalchemy_create lib payload s = (Inl (HTTPException 422 ''Key already exists''), s'')"
  using assms by (simp add: sqlalchemy_create_def and_then_def raises_def)

lemma sqlalchemy_update_conflict:
  assumes "sqlalchemy_update_body lib payload item_id s = (Inl (IntegrityError args), s')"
    and "sa_rollback lib s' = (Inr (), s'')"
  shows "sqlalchemy_update lib payload item_id s = (Inl (HTTPException 422 (join '', '' args)), s'')"
  using assms by (simp add: sqlalchemy_update_def and_then_def crud_raise_def raises_def)

lemma gino_create_conflict:
  assumes "gino_create_body lib payload s = (Inl e, s')"
    and "e = IntegrityError args \<or> e = UniqueViolationError args"
  shows "gino_create lib payload s = (Inl (HTTPException 422 ''Key already exists''), s')"
  using assms by (auto simp: gino_create_def raises_def)

lemma gino_update_conflict:
  assumes "gino_update_body lib payload item_id s = (Inl e, s')"
    and "e = IntegrityError args \<or> e = UniqueViolationError args"
  shows "gino_update lib payload item_id s = (Inl (HTTPException 422 (join '', '' args)), s')"
  using assms by (auto simp: gino_update_def crud_raise_def raises_def)

lemma databases_create_conflict:
  assumes "databases_create_body lib payload s = (Inl e, s')"
  shows "databases_create lib payload s = (Inl (HTTPException 422 ''Key already exists''), s')"
  using assms by (simp add: databases_create_def raises_def)

lemma databases_update_conflict:
  assumes "databases_update_body lib item_id payload s = (Inl e, s')"
  shows "databases_update lib item_id payload s = (Inl (HTTPException 404 ''Item not found''), s')"
  using assms by (simp add: databases_update_def raises_def NOT_FOUND_def)

lemma tortoise_create_conflict:
  assumes "tt_model lib payload s = (Inr db_model, s')"
    and "tt_save lib db_model s' = (Inl e, s'')"
  shows "tortoise_create lib payload s = (Inl e, s'')"
  using assms by (simp add: tortoise_create_def and_then_def)

lemma tortoise_update_conflict:
  assumes "tt_filter_update lib item_id payload s = (Inl e, s')"
  shows "tortoise_update lib payload item_id s = (Inl e, s')"
  using assms by (simp add: tortoise_update_def and_then_def)

text \<open>
  The update route of the Databases adapter has a handler for every exception, which
  raises the 404 exception; that is what an integrity error of its \<open>fetch_one\<close> becomes.
\<close>

lemma databases_update_of_conflict:
  "databases_update databases_conflict (VInt 1) yellow_potato () =
     (Inl (HTTPException 404 ''Item not found''), ())"
  by (simp add: databases_update_def databases_update_body_def databases_conflict_def
      and_then_def raises_def NOT_FOUND_def)

text \<open>
  C8, as the claim states it: in every adapter an integrity error of the persistence
  library during create or update becomes an HTTP exception with status code 422. It does
  not in the Tortoise adapter: its routes have no handler, so the integrity error of
  \<open>save\<close> and of \<open>update\<close> leaves the route as it is.
\<close>

theorem integrity_error_not_422:
  "tortoise_create tortoise_conflict basic_potato () = (Inl (IntegrityError conflict), ()) \<and>
   tortoise_update tortoise_conflict yellow_potato 1 () = (Inl (IntegrityError conflict), ())"
  by (simp add: tortoise_create_def tortoise_update_def tortoise_conflict_def
      and_then_def returns_def raises_def)

text \<open>
  C8, amended. When the statements inside \<open>try\<close> raise an integrity error of the
  persistence library, the create and update routes of the SQLAlchemy adapter (once the
  rollback of the session has returned) and of the Gino adapter (also for the unique
  violation of its driver) and the create route of the Databases adapter raise an HTTP
  exception with status code 422. The create and update routes of the Tortoise adapter
  raise the integrity error itself.
\<close>

theorem integrity_error_translation:
  "(sqlalchemy_create_body sa payload s = (Inl (IntegrityError args), s') \<and>
      sa_rollback sa s' = (Inr (), s'') \<longrightarrow>
    sqlalchemy_create sa payload s = (Inl (HTTPException 422 ''Key already exists''), s'')) \<and>
   (sqlalchemy_update_body sa payload item_id t = (Inl (IntegrityError args), t') \<and>
      sa_rollback sa t' = (Inr (), t'') \<longrightarrow>
    sqlalchemy_update sa payload item_id t = (Inl (HTTPException 422 (join '', '' args)), t'')) \<and>
   (gino_create_body gi payload u = (Inl e, u') \<and>
      (e = IntegrityError args \<or> e = UniqueViolationError args) \<longrightarrow>
    gino_create gi payload u = (Inl (HTTPException 422 ''Key already exists''), u')) \<and>
   (gino_update_body gi payload item_id v = (Inl e, v') \<and>
      (e = IntegrityError args \<or> e = UniqueViolationError args) \<longrightarrow>
    gino_update gi payload item_id v = (Inl (HTTPException 422 (join '', '' args)), v')) \<and>
   (databases_create_body db payload w = (Inl (IntegrityError args), w') \<longrightarrow>
    databases_create db payload w = (Inl (HTTPException 422 ''Key already exists''), w')) \<and>
   (tt_model tt payload y = (Inr db_model, y') \<and>
      tt_save tt db_model y' = (Inl (IntegrityError args), y'') \<longrightarrow>
    tortoise_create tt payload y = (Inl (IntegrityError args), y'')) \<and>
   (tt_filter_update tt n payload z = (Inl (IntegrityError args), z') \<longrightarrow>
    tortoise_update tt payload n z = (Inl (IntegrityError args), z'))"
proof (intro conjI impI)
  assume "sqlalchemy_create_body sa payload s = (Inl (IntegrityError args), s') \<and>
    sa_rollback sa s' = (Inr (), s'')"
  then show "sqlalchemy_create sa payload s = (Inl (HTTPException 422 ''Key already exists''), s'')"
    by (simp add: sqlalchemy_create_conflict)
next
  assume "sqlalchemy_update_body sa payload item_id t = (Inl (IntegrityError args), t') \<and>
    sa_rollback sa t' = (Inr (), t'')"
  then show "sqlalchemy_update sa payload item_id t =
      (Inl (HTTPException 422 (join '', '' args)), t'')"
    by (simp add: sqlalchemy_update_conflict)
next
  assume "gino_create_body gi payload u = (Inl e, u') \<and>
    (e = IntegrityError args \<or> e = UniqueViolationError args)"
  then show "gino_create gi payload u = (Inl (HTTPException 422 ''Key already exists''), u')"
    using gino_create_conflict [of gi payload u e u' args] by simp
next
  assume "gino_update_body gi payload item_id v = (Inl e, v') \<and>
    (e = IntegrityError args \<or> e = UniqueViolationError args)"
  then show "gino_update gi payload item_id v = (Inl (HTTPException 422 (join '', '' args)), v')"
    using gino_update_conflict [of gi payload item_id v e v' args] by simp
next
  assume "databases_create_body db payload w = (Inl (IntegrityError args), w')"
  then show "databases_create db payload w = (Inl (HTTPException 422 ''Key already exists''), w')"
    by (rule databases_create_conflict)
next
  assume "tt_model tt payload y = (Inr db_model, y') \<and>
    tt_save tt db_model y' = (Inl (IntegrityError args), y'')"
  then show "tortoise_create tt payload y = (Inl (IntegrityError args), y'')"
    by (simp add: tortoise_create_conflict)
next
  assume "tt_filter_update tt n payload z = (Inl (IntegrityError args), z')"
  then show "tortoise_update tt payload n z = (Inl (IntegrityError args), z')"
    by (rule tortoise_update_conflict)
qed

theorem integrity_error_translation_witness:
  "sqlalchemy_create_body sqlalchemy_conflict basic_potato () = (Inl (IntegrityError conflict), ()) \<and>
   sa_rollback sqlalchemy_conflict () = (Inr (), ()) \<and>
   sqlalchemy_create sqlalchemy_conflict basic_potato () =
     (Inl (HTTPException 422 ''Key already exists''), ()) \<and>
   sqlalchemy_update_body sqlalchemy_conflict yellow_potato (VInt 1) () =
     (Inl (IntegrityError conflict), ()) \<and>
   sqlalchemy_update sqlalchemy_conflict yellow_potato (VInt 1) () =
     (Inl (HTTPException 422 (join '', '' conflict)), ()) \<and>
   gino_create_body gino_conflict basic_potato () = (Inl (UniqueViolationError conflict), ()) \<and>
   gino_create gino_conflict basic_potato () = (Inl (HTTPException 422 ''Key already exists''), ()) \<and>
   gino_update_body gino_conflict yellow_potato (VInt 1) () =
     (Inl (UniqueViolationError conflict), ()) \<and>
   gino_update gino_conflict yellow_potato (VInt 1) () =
     (Inl (HTTPException 422 (join '', '' conflict)), ()) \<and>
   databases_create_body databases_conflict basic_potato () = (Inl (IntegrityError conflict), ()) \<and>
   databases_create databases_conflict basic_potato () =
     (Inl (HTTPException 422 ''Key already exists''), ()) \<and>
   tt_model tortoise_conflict basic_potato () = (Inr basic_potato, ()) \<and>
   tt_save tortoise_conflict basic_potato () = (Inl (IntegrityError conflict), ()) \<and>
   tortoise_create tortoise_conflict basic_potato () = (Inl (IntegrityError conflict), ()) \<and>
   tt_filter_update tortoise_conflict 1 yellow_potato () = (Inl (IntegrityError conflict), ()) \<and>
   tortoise_update tortoise_conflict yellow_potato 1 () = (Inl (IntegrityError conflict), ())"
proof -
  have sa: "sqlalchemy_create_body sqlalchemy_conflict basic_potato () =
      (Inl (IntegrityError conflict), ())"
    "sqlalchemy_update_body sqlalchemy_conflict yellow_potato (VInt 1) () =
      (Inl (IntegrityError conflict), ())"
    "sa_rollback sqlalchemy_conflict () = (Inr (), ())"
    by (simp_all add: sqlalchemy_create_body_def sqlalchemy_update_body_def
        sqlalchemy_get_one_def sqlalchemy_conflict_def yellow_potato_def basic_potato_def
        and_then_def returns_def raises_def)
  have gi: "gino_create_body gino_conflict basic_potato () =
      (Inl (UniqueViolationError conflict), ())"
    "gino_update_body gino_conflict yellow_potato (VInt 1) () =
      (Inl (UniqueViolationError conflict), ())"
    by (simp_all add: gino_create_body_def gino_update_body_def gino_transaction_def
        gino_get_one_def gino_conflict_def and_then_def returns_def raises_def)
  have db: "databases_create_body databases_conflict basic_potato () =
      (Inl (IntegrityError conflict), ())"
    by (simp add: databases_create_body_def databases_conflict_def and_then_def raises_def)
  have tt: "tt_model tortoise_conflict basic_potato () = (Inr basic_potato, ())"
    "tt_save tortoise_conflict basic_potato () = (Inl (IntegrityError conflict), ())"
    "tt_filter_update tortoise_conflict 1 yellow_potato () = (Inl (IntegrityError conflict), ())"
    by (simp_all add: tortoise_conflict_def returns_def raises_def)
  from sa gi db tt
    integrity_error_translation [where sa = sqlalchemy_conflict and gi = gino_conflict
      and db = databases_conflict and tt = tortoise_conflict and args = conflict
      and e = "UniqueViolationError conflict" and item_id = "VInt 1" and n = 1
      and payload = basic_potato
      and s = "()" and s' = "()" and s'' = "()" and u = "()" and u' = "()"
      and w = "()" and w' = "()" and y = "()" and y' = "()" and y'' = "()"
      and db_model = basic_potato]
    integrity_error_translation [where sa = sqlalchemy_conflict and gi = gino_conflict
      and db = databases_conflict and tt = tortoise_conflict and args = conflict
      and e = "UniqueViolationError conflict" and item_id = "VInt 1" and n = 1
      and payload = yellow_potato
      and t = "()" and t' = "()" and t'' = "()" and v = "()" and v' = "()"
      and z = "()" and z' = "()"]
  show ?thesis by simp
qed

end
